theory Spec2Isabelle
  imports Main "HOL-Library.AList"
begin

chapter \<open>LocalRAG2: configuration surface, chat surface and the persisted data model\<close>

section \<open>JavaScript strings and numbers used by the front end\<close>

text \<open>
  Strings are lists of 8-bit characters, each read as a UTF-16 code unit below 256.
  \<open>isWhiteSpace\<close> is the class matched by the regular expression \<open>\s\<close> and stripped by
  \<open>String.prototype.trim\<close>, on that range: tab, line feed, vertical tab, form feed,
  carriage return, space and no-break space.
\<close>

definition isWhiteSpace :: "char \<Rightarrow> bool" where
  "isWhiteSpace c =
     (c \<in> set [CHR 0x09, CHR 0x0A, CHR 0x0B, CHR 0x0C, CHR 0x0D, CHR 0x20, CHR 0xA0])"

definition trim :: "string \<Rightarrow> string" where
  "trim s = rev (dropWhile isWhiteSpace (rev (dropWhile isWhiteSpace s)))"

text \<open>\<open>s.split(/\/|\\/)\<close>: the pieces between separators; a string without separator
  is one piece, the empty string included.\<close>

definition isPathSeparator :: "char \<Rightarrow> bool" where
  "isPathSeparator c = (c = CHR ''/'' \<or> c = CHR 0x5C)"

fun splitOn :: "(char \<Rightarrow> bool) \<Rightarrow> string \<Rightarrow> string list" where
  "splitOn sep [] = [[]]"
| "splitOn sep (c # cs) =
     (if sep c then [] # splitOn sep cs
      else (case splitOn sep cs of [] \<Rightarrow> [[c]] | w # ws \<Rightarrow> (c # w) # ws))"

text \<open>\<open>Array.prototype.pop\<close> read as a value: the last element, \<open>undefined\<close> on an
  empty array.\<close>

definition pop :: "'a list \<Rightarrow> 'a option" where
  "pop xs = (case rev xs of [] \<Rightarrow> None | x # _ \<Rightarrow> Some x)"

text \<open>\<open>a || b\<close> on a string that may be \<open>undefined\<close>: the empty string and
  \<open>undefined\<close> are falsy.\<close>

definition orElse :: "string option \<Rightarrow> string \<Rightarrow> string" where
  "orElse a b = (case a of None \<Rightarrow> b | Some s \<Rightarrow> if s = [] then b else s)"

definition toLowerChar :: "char \<Rightarrow> char" where
  "toLowerChar c =
     (let n = (of_char c :: nat)
      in if (65 \<le> n \<and> n \<le> 90) \<or> (192 \<le> n \<and> n \<le> 222 \<and> n \<noteq> 215)
         then char_of (n + 32) else c)"

definition toLowerCase :: "string \<Rightarrow> string" where
  "toLowerCase s = map toLowerChar s"

text \<open>\<open>s.replace(/\s+/g, "_")\<close>: every maximal run of white space becomes one
  underscore.\<close>

function replaceWhitespaceRuns :: "string \<Rightarrow> string" where
  "replaceWhitespaceRuns [] = []"
| "replaceWhitespaceRuns (c # cs) =
     (if isWhiteSpace c then CHR ''_'' # replaceWhitespaceRuns (dropWhile isWhiteSpace cs)
      else c # replaceWhitespaceRuns cs)"
  by pat_completeness auto
termination
  by (relation "measure length") (auto simp: less_Suc_eq_le length_dropWhile_le)

text \<open>Decimal rendering of a number in a template literal and by \<open>toString\<close>.\<close>

definition digitChar :: "nat \<Rightarrow> char" where
  "digitChar d =
     (if d = 0 then CHR ''0'' else if d = 1 then CHR ''1'' else if d = 2 then CHR ''2''
      else if d = 3 then CHR ''3'' else if d = 4 then CHR ''4'' else if d = 5 then CHR ''5''
      else if d = 6 then CHR ''6'' else if d = 7 then CHR ''7'' else if d = 8 then CHR ''8''
      else CHR ''9'')"

function showNat :: "nat \<Rightarrow> string" where
  "showNat n = (if n < 10 then [digitChar n] else showNat (n div 10) @ [digitChar (n mod 10)])"
  by pat_completeness auto
termination
  by (relation "measure id") auto

declare showNat.simps [simp del]

definition showInt :: "int \<Rightarrow> string" where
  "showInt i = (if i < 0 then CHR ''-'' # showNat (nat (- i)) else showNat (nat i))"

text \<open>
  \<open>parseInt(s)\<close> without a radix: leading white space is skipped, one sign is read, a
  \<open>0x\<close> or \<open>0X\<close> prefix selects base 16, and the longest prefix of digits of the base is
  the value; \<open>None\<close> is \<open>NaN\<close>.
\<close>

definition digitValue :: "char \<Rightarrow> nat option" where
  "digitValue c =
     (let n = (of_char c :: nat)
      in if 48 \<le> n \<and> n \<le> 57 then Some (n - 48)
         else if 97 \<le> n \<and> n \<le> 102 then Some (n - 87)
         else if 65 \<le> n \<and> n \<le> 70 then Some (n - 55)
         else None)"

definition isDigitOf :: "nat \<Rightarrow> char \<Rightarrow> bool" where
  "isDigitOf radix c = (case digitValue c of None \<Rightarrow> False | Some v \<Rightarrow> v < radix)"

definition digitsValue :: "nat \<Rightarrow> string \<Rightarrow> nat" where
  "digitsValue radix ds =
     foldl (\<lambda>acc c. acc * radix + (case digitValue c of None \<Rightarrow> 0 | Some v \<Rightarrow> v)) 0 ds"

definition parseInt :: "string \<Rightarrow> int option" where
  "parseInt s =
     (let t = dropWhile isWhiteSpace s;
          neg = (case t of [] \<Rightarrow> False | c # _ \<Rightarrow> c = CHR ''-'');
          u = (case t of [] \<Rightarrow> [] | c # r \<Rightarrow> if c = CHR ''-'' \<or> c = CHR ''+'' then r else t);
          hex = (case u of c # d # _ \<Rightarrow> c = CHR ''0'' \<and> (d = CHR ''x'' \<or> d = CHR ''X'')
                 | _ \<Rightarrow> False);
          radix = (if hex then 16 else 10);
          ds = takeWhile (isDigitOf radix) (if hex then drop 2 u else u)
      in if ds = [] then None
         else Some ((if neg then - 1 else 1) * int (digitsValue radix ds)))"

section \<open>Types of the front end (\<open>frontend/src/types.ts\<close>)\<close>

datatype MessageSenderEnum = User | Assistant

datatype MessageRole = user | assistant

record ApiMessageResponse =
  api_id :: int
  api_text :: string
  api_sender :: MessageSenderEnum
  api_createdAt :: string
  api_chatId :: int

record ApiSendMessageResponse =
  chat_id :: int
  user_message :: ApiMessageResponse
  bot_message :: ApiMessageResponse

record Message =
  msg_id :: "int option"
  msg_role :: MessageRole
  msg_content :: string
  msg_createdAt :: "string option"

section \<open>The chat page (\<open>ChatInterface\<close>)\<close>

text \<open>
  The component state that \<open>handleSendMessage\<close> reads and writes. Ids are
  \<open>number | null\<close>; \<open>None\<close> is \<open>null\<close>.
\<close>

record ChatInterfaceState =
  input :: string
  messages :: "Message list"
  activeChatId :: "int option"
  isBotTyping :: bool
  currentLLMProviderId :: "int option"
  currentWatchedFolderId :: "int option"

text \<open>The JSON body of the send-message request.\<close>

record SendMessageBody =
  body_chat_id :: "int option"
  body_text :: string
  body_llm_provider_id :: int
  body_watched_folder_id :: int

text \<open>
  What the handler does to the outside, in order: \<open>alert\<close>, \<open>console.error\<close>, the
  \<open>POST\<close> issued with \<open>fetch\<close>, and the call of \<open>fetchChats\<close>, which issues a \<open>GET\<close> of
  the chat list (its own state updates depend on that reply and are not followed here).
\<close>

datatype Effect =
  Alert string
| ConsoleError string
| FetchPost string SendMessageBody
| CallFetchChats

fun isHttpRequest :: "Effect \<Rightarrow> bool" where
  "isHttpRequest (FetchPost _ _) = True"
| "isHttpRequest CallFetchChats = True"
| "isHttpRequest _ = False"

text \<open>
  How the awaited \<open>fetch\<close> ends: it throws (the message is kept when the thrown value is
  an \<open>Error\<close>; a body that cannot be read or parsed ends here too), it answers with a
  status that is not ok and a text body, or it answers ok with the parsed body.
\<close>

datatype FetchOutcome =
  Threw "string option"
| NotOk nat string
| Ok ApiSendMessageResponse

definition API_BASE_URL :: "string option \<Rightarrow> string" where
  "API_BASE_URL VITE_BASE_URL = orElse VITE_BASE_URL ''http://localhost:8000/api''"

definition API_V1_URL :: "string option \<Rightarrow> string" where
  "API_V1_URL VITE_BASE_URL = API_BASE_URL VITE_BASE_URL @ ''/v1''"

definition mapApiMessageToFrontend :: "ApiMessageResponse \<Rightarrow> Message" where
  "mapApiMessageToFrontend apiMsg =
     \<lparr> msg_id = Some (api_id apiMsg),
       msg_role = (if api_sender apiMsg = User then user else assistant),
       msg_content = api_text apiMsg,
       msg_createdAt = Some (api_createdAt apiMsg) \<rparr>"

text \<open>\<open>!x\<close> on a \<open>number | null\<close>: \<open>null\<close> and \<open>0\<close> are falsy.\<close>

definition falsyNumber :: "int option \<Rightarrow> bool" where
  "falsyNumber x = (case x of None \<Rightarrow> True | Some n \<Rightarrow> n = 0)"

text \<open>The message of the error caught by the handler.\<close>

definition caughtMessage :: "FetchOutcome \<Rightarrow> string" where
  "caughtMessage outcome =
     (case outcome of
        Threw None \<Rightarrow> ''Unknown error''
      | Threw (Some m) \<Rightarrow> m
      | NotOk status errorData \<Rightarrow>
          ''HTTP error! status: '' @ showNat status @ '', details: '' @ errorData
      | Ok _ \<Rightarrow> [])"

text \<open>
  \<open>handleSendMessage\<close>, with the environment variable, the time stamp of the optimistic
  message and the outcome of the request as arguments. The result is the state after the
  handler has run to its end and the effects it had.
\<close>

definition handleSendMessage ::
  "string option \<Rightarrow> string \<Rightarrow> FetchOutcome \<Rightarrow> ChatInterfaceState \<Rightarrow>
   ChatInterfaceState \<times> Effect list" where
  "handleSendMessage VITE_BASE_URL nowIso outcome st =
     (if falsyNumber (currentLLMProviderId st)
      then (st, [Alert ''Please select an LLM provider before sending a message.''])
      else if falsyNumber (currentWatchedFolderId st)
      then (st, [Alert ''Please select a Watched Folder before sending a message.''])
      else if trim (input st) = [] then (st, [])
      else
        (case (currentLLMProviderId st, currentWatchedFolderId st) of
           (Some providerIdToSend, Some folderIdToSend) \<Rightarrow>
             (let chatIdToSend = activeChatId st;
                  userMessageContent = input st;
                  optimisticUserMessage =
                    \<lparr> msg_id = None, msg_role = user, msg_content = userMessageContent,
                      msg_createdAt = Some nowIso \<rparr>;
                  st1 = st\<lparr> isBotTyping := True \<rparr>;
                  st2 = st1\<lparr> messages := messages st1 @ [optimisticUserMessage] \<rparr>;
                  st3 = st2\<lparr> input := [] \<rparr>;
                  request =
                    FetchPost (API_V1_URL VITE_BASE_URL @ ''/chats/send-message'')
                      \<lparr> body_chat_id = chatIdToSend, body_text = userMessageContent,
                        body_llm_provider_id = providerIdToSend,
                        body_watched_folder_id = folderIdToSend \<rparr>
              in (case outcome of
                    Ok data \<Rightarrow>
                      (let messagesWithoutOptimistic =
                             filter (\<lambda>msg. msg_content msg \<noteq> userMessageContent \<or>
                                           msg_role msg \<noteq> user \<or> msg_id msg \<noteq> None)
                               (messages st3);
                           st4 = st3\<lparr> messages := messagesWithoutOptimistic @
                                   [mapApiMessageToFrontend (user_message data),
                                    mapApiMessageToFrontend (bot_message data)] \<rparr>
                       in (st4\<lparr> isBotTyping := False \<rparr>,
                           [request] @
                           (if falsyNumber (activeChatId st) \<and> chat_id data \<noteq> 0
                            then [CallFetchChats] else [])))
                  | _ \<Rightarrow>
                      (let st4 = st3\<lparr> messages :=
                                   filter (\<lambda>msg. msg_content msg \<noteq> userMessageContent \<or>
                                                 msg_role msg \<noteq> user)
                                     (messages st3) \<rparr>
                       in (st4\<lparr> isBotTyping := False \<rparr>,
                           [request,
                            ConsoleError ''Failed to send message:'',
                            Alert (''Error sending message: '' @ caughtMessage outcome)]))))
         | _ \<Rightarrow> (st, [])))"

section \<open>The persisted data model (\<open>backend/prisma/schema.prisma\<close>)\<close>

text \<open>
  The models \<open>LLMProvider\<close>, \<open>WatchedFolder\<close>, \<open>File\<close> and \<open>Chat\<close> of the schema, one
  record each, scalar columns only. \<open>Int?\<close> columns are \<open>int option\<close>; \<open>DateTime\<close>
  columns are milliseconds.
\<close>

record LLMProvider =
  llm_id :: int
  llm_type :: string
  llm_name :: string
  llm_apiKey :: string
  llm_apiUrl :: string
  llm_embeddingType :: string
  llm_modelName :: string
  llm_createdAt :: nat
  llm_updatedAt :: nat

record WatchedFolder =
  wf_id :: int
  wf_name :: string
  wf_path :: string
  wf_vectorDbFilename :: string
  wf_vectorDbLocation :: string
  wf_createdAt :: nat
  wf_updatedAt :: nat
  wf_folderHash :: string
  wf_llmProviderId :: "int option"

record File =
  file_id :: int
  file_name :: string
  file_relativePath :: string
  file_fileHash :: string
  file_watchedFolderId :: int
  file_createdAt :: nat
  file_updatedAt :: nat

record Chat =
  chat_row_id :: int
  chat_name :: string
  chat_watchedFolderId :: "int option"
  chat_llmProviderId :: "int option"
  chat_createdAt :: nat
  chat_updatedAt :: nat

section \<open>The settings page: list and form of watched folders\<close>

record ApiLLMProviderResponse =
  prov_id :: int
  prov_name :: string
  prov_type :: string
  prov_modelName :: string
  prov_apiUrl :: "string option"
  prov_apiKey :: "string option"
  prov_embeddingType :: string
  prov_createdAt :: string
  prov_updatedAt :: string

record ApiFileResponse =
  af_id :: int
  af_name :: string
  af_relativePath :: string
  af_fileHash :: string
  af_watchedFolderId :: int
  af_createdAt :: string
  af_updatedAt :: string

record ApiWatchedFolderResponse =
  resp_id :: int
  resp_name :: string
  resp_llmProviderId :: int
  resp_path :: string
  resp_vectorDbFilename :: string
  resp_vectorDbLocation :: string
  resp_folderHash :: string
  resp_files :: "ApiFileResponse list"
  resp_createdAt :: string
  resp_updatedAt :: string

text \<open>
  \<open>getLlmProviderName\<close> of \<open>WatchedFolderList\<close>; its parameter is
  \<open>number | null | undefined\<close>, and \<open>None\<close> stands for both \<open>null\<close> and \<open>undefined\<close>.
\<close>

definition getLlmProviderName :: "ApiLLMProviderResponse list \<Rightarrow> int option \<Rightarrow> string" where
  "getLlmProviderName llmProviders providerId =
     (case providerId of
        None \<Rightarrow> ''N/A''
      | Some pid \<Rightarrow>
          (case find (\<lambda>p. prov_id p = pid) llmProviders of
             Some provider \<Rightarrow> prov_name provider
           | None \<Rightarrow> ''ID: '' @ showInt pid))"

text \<open>
  The state of \<open>WatchedFolderFormDialog\<close>. \<open>selectedLlmProviderId\<close> is
  \<open>string | undefined\<close>.
\<close>

record WatchedFolderFormState =
  form_name :: string
  form_path :: string
  selectedLlmProviderId :: "string option"
  form_vectorDbFilename :: string
  form_vectorDbLocation :: string
  isSubmitting :: bool
  form_error :: string

text \<open>
  The object literal built in create mode, with the five properties it has at run time,
  and the update payload, whose properties are present only when assigned.
  \<open>llmProviderId\<close> holds the result of \<open>parseInt\<close>, so \<open>None\<close> there is \<open>NaN\<close>.
\<close>

record WatchedFolderCreatePayload =
  create_name :: string
  create_path :: string
  create_llmProviderId :: "int option"
  create_vectorDbFilename :: string
  create_vectorDbLocation :: string

record WatchedFolderUpdatePayload =
  update_name :: "string option"
  update_path :: "string option"
  update_llmProviderId :: "int option option"

datatype FolderPayload =
  CreatePayload WatchedFolderCreatePayload
| UpdatePayload WatchedFolderUpdatePayload

text \<open>How the awaited \<open>onSubmit\<close> ends: it resolves, or it rejects (the message is kept
  when the rejection is an \<open>Error\<close>).\<close>

datatype SubmitOutcome = Resolved | Rejected "string option"

definition falsyString :: "string option \<Rightarrow> bool" where
  "falsyString x = (case x of None \<Rightarrow> True | Some s \<Rightarrow> s = [])"

text \<open>The file name generated when the field is left blank; \<open>now\<close> is \<open>Date.now()\<close>.\<close>

definition generatedVectorDbFilename :: "string \<Rightarrow> nat \<Rightarrow> string" where
  "generatedVectorDbFilename path now =
     replaceWhitespaceRuns
       (toLowerCase (orElse (pop (splitOn isPathSeparator path)) ''default_folder''))
     @ ''_'' @ showNat now @ ''_vectors''"

text \<open>
  \<open>handleSubmit\<close> of the form, with the \<open>initialData\<close> prop, the clock and the outcome
  of \<open>onSubmit\<close> as arguments. The result is the state after the handler has run to its
  end and the call of \<open>onSubmit\<close> it made, if any: the payload and the id passed.
\<close>

definition handleSubmit ::
  "ApiWatchedFolderResponse option \<Rightarrow> nat \<Rightarrow> SubmitOutcome \<Rightarrow> WatchedFolderFormState \<Rightarrow>
   WatchedFolderFormState \<times> (FolderPayload \<times> int option) option" where
  "handleSubmit initialData now outcome st =
     (let isEditMode = (initialData \<noteq> None);
          st0 = st\<lparr> form_error := [] \<rparr>
      in if trim (form_name st) = []
         then (st0\<lparr> form_error := ''Folder display name is required'' \<rparr>, None)
         else if trim (form_path st) = []
         then (st0\<lparr> form_error := ''Folder path is required'' \<rparr>, None)
         else if falsyString (selectedLlmProviderId st)
         then (st0\<lparr> form_error := ''An LLM Provider must be selected for embeddings'' \<rparr>, None)
         else if trim (form_vectorDbLocation st) = [] \<and> \<not> isEditMode
         then (st0\<lparr> form_error := ''Vector DB Storage Location is required'' \<rparr>, None)
         else
           (let finalVectorDbFilename =
                  (if trim (form_vectorDbFilename st) \<noteq> [] then trim (form_vectorDbFilename st)
                   else generatedVectorDbFilename (form_path st) now);
                selected = (case selectedLlmProviderId st of None \<Rightarrow> [] | Some s \<Rightarrow> s);
                payload =
                  (case initialData of
                     Some init \<Rightarrow>
                       UpdatePayload
                         \<lparr> update_name =
                             (if form_name st \<noteq> resp_name init then Some (form_name st) else None),
                           update_path =
                             (if form_path st \<noteq> resp_path init then Some (form_path st) else None),
                           update_llmProviderId =
                             (if \<not> falsyString (selectedLlmProviderId st) \<and>
                                 parseInt selected \<noteq> Some (resp_llmProviderId init)
                              then Some (parseInt selected) else None) \<rparr>
                   | None \<Rightarrow>
                       CreatePayload
                         \<lparr> create_name = trim (form_name st),
                           create_path = trim (form_path st),
                           create_llmProviderId = parseInt selected,
                           create_vectorDbFilename = finalVectorDbFilename,
                           create_vectorDbLocation = trim (form_vectorDbLocation st) \<rparr>)
            in if payload =
                    UpdatePayload \<lparr> update_name = None, update_path = None,
                                    update_llmProviderId = None \<rparr>
               then (st0\<lparr> form_error := ''No changes detected.'' \<rparr>, None)
               else
                 (let st1 = st0\<lparr> isSubmitting := True \<rparr>;
                      call = (payload, map_option resp_id initialData);
                      st2 = (case outcome of
                               Resolved \<Rightarrow> st1
                             | Rejected (Some m) \<Rightarrow> st1\<lparr> form_error := m \<rparr>
                             | Rejected None \<Rightarrow>
                                 st1\<lparr> form_error :=
                                   ''Failed to '' @ (if isEditMode then ''update'' else ''add'')
                                   @ '' folder.'' \<rparr>)
                  in (st2\<lparr> isSubmitting := False \<rparr>, Some call))))"

text \<open>
  The last segment of a path as the properties below speak of it: what follows the last
  \<open>/\<close> or \<open>\\<close>, the whole path when it has neither.
\<close>

definition lastSegment :: "string \<Rightarrow> string" where
  "lastSegment path = rev (takeWhile (\<lambda>c. \<not> isPathSeparator c) (rev path))"

text \<open>A row of \<open>WatchedFolder\<close> whose optional column \<open>llmProviderId\<close> is \<open>NULL\<close>.\<close>

definition unboundFolder :: WatchedFolder where
  "unboundFolder =
     \<lparr> wf_id = 1, wf_name = ''Docs'', wf_path = ''/home/me/docs'',
       wf_vectorDbFilename = ''docs_vectors'', wf_vectorDbLocation = ''./data'',
       wf_createdAt = 0, wf_updatedAt = 0, wf_folderHash = [],
       wf_llmProviderId = None \<rparr>"

text \<open>Two states of the form in create mode: one with a provider chosen and the file
  name left blank, one with no provider chosen.\<close>

definition exampleForm :: WatchedFolderFormState where
  "exampleForm =
     \<lparr> form_name = ''Docs'', form_path = ''/home/me/My  Docs'',
       selectedLlmProviderId = Some ''3'', form_vectorDbFilename = '' '',
       form_vectorDbLocation = ''./data'', isSubmitting = False, form_error = [] \<rparr>"

definition examplePayload :: WatchedFolderCreatePayload where
  "examplePayload =
     \<lparr> create_name = ''Docs'', create_path = ''/home/me/My  Docs'',
       create_llmProviderId = Some 3,
       create_vectorDbFilename = ''my_docs_1747312345678_vectors'',
       create_vectorDbLocation = ''./data'' \<rparr>"

definition exampleFormNoProvider :: WatchedFolderFormState where
  "exampleFormNoProvider = exampleForm\<lparr> selectedLlmProviderId := None \<rparr>"

section \<open>Rows of \<open>File\<close> under the unique index of the schema\<close>

text \<open>
  The tables of the database. \<open>File\<close> has \<open>@@unique([watchedFolderId, relativePath])\<close>
  and \<open>onDelete: Cascade\<close> towards \<open>WatchedFolder\<close>; the relation of \<open>Chat\<close> to
  \<open>WatchedFolder\<close> is optional and names no action, which is \<open>SetNull\<close>. With
  \<open>relationMode = "prisma"\<close> these actions are carried out by the client when a row is
  deleted. \<open>db_nextFileId\<close> is the counter of \<open>@default(autoincrement())\<close>.
\<close>

record Database =
  db_llmProviders :: "LLMProvider list"
  db_watchedFolders :: "WatchedFolder list"
  db_files :: "File list"
  db_chats :: "Chat list"
  db_nextFileId :: int

datatype DbError = UniqueConstraintFailed | RecordNotFound

definition emptyDatabase :: Database where
  "emptyDatabase =
     \<lparr> db_llmProviders = [], db_watchedFolders = [], db_files = [], db_chats = [],
       db_nextFileId = 1 \<rparr>"

definition fileKey :: "File \<Rightarrow> int \<times> string" where
  "fileKey f = (file_watchedFolderId f, file_relativePath f)"

text \<open>The data of a \<open>create\<close> and of an \<open>update\<close> of a \<open>File\<close>; in an update a column
  is written only when given.\<close>

record FileCreateInput =
  new_name :: string
  new_relativePath :: string
  new_fileHash :: string
  new_watchedFolderId :: int

record FileUpdateInput =
  set_name :: "string option"
  set_relativePath :: "string option"
  set_fileHash :: "string option"
  set_watchedFolderId :: "int option"

definition createFile :: "nat \<Rightarrow> FileCreateInput \<Rightarrow> Database \<Rightarrow> DbError + Database" where
  "createFile now d db =
     (if (new_watchedFolderId d, new_relativePath d) \<in> set (map fileKey (db_files db))
      then Inl UniqueConstraintFailed
      else Inr (db\<lparr> db_files := db_files db @
                   [\<lparr> file_id = db_nextFileId db, file_name = new_name d,
                      file_relativePath = new_relativePath d, file_fileHash = new_fileHash d,
                      file_watchedFolderId = new_watchedFolderId d,
                      file_createdAt = now, file_updatedAt = now \<rparr>],
                 db_nextFileId := db_nextFileId db + 1 \<rparr>))"

definition applyFileUpdate :: "nat \<Rightarrow> FileUpdateInput \<Rightarrow> File \<Rightarrow> File" where
  "applyFileUpdate now u f =
     f\<lparr> file_name := (case set_name u of None \<Rightarrow> file_name f | Some v \<Rightarrow> v),
        file_relativePath :=
          (case set_relativePath u of None \<Rightarrow> file_relativePath f | Some v \<Rightarrow> v),
        file_fileHash := (case set_fileHash u of None \<Rightarrow> file_fileHash f | Some v \<Rightarrow> v),
        file_watchedFolderId :=
          (case set_watchedFolderId u of None \<Rightarrow> file_watchedFolderId f | Some v \<Rightarrow> v),
        file_updatedAt := now \<rparr>"

definition updateFile ::
  "nat \<Rightarrow> int \<Rightarrow> FileUpdateInput \<Rightarrow> Database \<Rightarrow> DbError + Database" where
  "updateFile now fid u db =
     (case find (\<lambda>f. file_id f = fid) (db_files db) of
        None \<Rightarrow> Inl RecordNotFound
      | Some f \<Rightarrow>
          (if fileKey (applyFileUpdate now u f)
                \<in> set (map fileKey (filter (\<lambda>g. file_id g \<noteq> fid) (db_files db)))
           then Inl UniqueConstraintFailed
           else Inr (db\<lparr> db_files :=
                       map (\<lambda>g. if file_id g = fid then applyFileUpdate now u g else g)
                         (db_files db) \<rparr>)))"

definition deleteFile :: "int \<Rightarrow> Database \<Rightarrow> DbError + Database" where
  "deleteFile fid db =
     (case find (\<lambda>f. file_id f = fid) (db_files db) of
        None \<Rightarrow> Inl RecordNotFound
      | Some _ \<Rightarrow> Inr (db\<lparr> db_files := filter (\<lambda>g. file_id g \<noteq> fid) (db_files db) \<rparr>))"

definition deleteWatchedFolder :: "int \<Rightarrow> Database \<Rightarrow> DbError + Database" where
  "deleteWatchedFolder wid db =
     (case find (\<lambda>w. wf_id w = wid) (db_watchedFolders db) of
        None \<Rightarrow> Inl RecordNotFound
      | Some _ \<Rightarrow>
          Inr (db\<lparr> db_files := filter (\<lambda>f. file_watchedFolderId f \<noteq> wid) (db_files db),
                  db_chats :=
                    map (\<lambda>c. if chat_watchedFolderId c = Some wid
                             then c\<lparr> chat_watchedFolderId := None \<rparr> else c)
                      (db_chats db),
                  db_watchedFolders :=
                    filter (\<lambda>w. wf_id w \<noteq> wid) (db_watchedFolders db) \<rparr>))"

datatype FileOp =
  CreateFile nat FileCreateInput
| UpdateFile nat int FileUpdateInput
| DeleteFile int
| DeleteWatchedFolder int

fun applyFileOp :: "FileOp \<Rightarrow> Database \<Rightarrow> DbError + Database" where
  "applyFileOp (CreateFile now d) db = createFile now d db"
| "applyFileOp (UpdateFile now fid u) db = updateFile now fid u db"
| "applyFileOp (DeleteFile fid) db = deleteFile fid db"
| "applyFileOp (DeleteWatchedFolder wid) db = deleteWatchedFolder wid db"

text \<open>A run of operations; a rejected operation leaves the database as it was.\<close>

fun applyFileOps :: "FileOp list \<Rightarrow> Database \<Rightarrow> Database" where
  "applyFileOps [] db = db"
| "applyFileOps (op # ops) db =
     (case applyFileOp op db of Inl _ \<Rightarrow> applyFileOps ops db
      | Inr db' \<Rightarrow> applyFileOps ops db')"

definition uniqueRelativePaths :: "Database \<Rightarrow> bool" where
  "uniqueRelativePaths db = distinct (map fileKey (db_files db))"

text \<open>
  What every run of the operations keeps: the primary key \<open>id\<close> is unique and below the
  counter, and the pair of the unique index is unique.
\<close>

definition filesInvariant :: "Database \<Rightarrow> bool" where
  "filesInvariant db =
     (distinct (map file_id (db_files db)) \<and>
      (\<forall>f\<in>set (db_files db). file_id f < db_nextFileId db) \<and>
      distinct (map fileKey (db_files db)))"

chapter \<open>The synchronisation and retrieval engine, from its specification\<close>

text \<open>
  The engine (content hasher, snapshot store, loader and chunker, embedding adapter,
  vector index, sync engine, retrieval engine) is the back end of the repository. The
  definitions of this chapter follow the specification of that back end, section by
  section; each says which part it stands for. The external capabilities are arguments.
  Left out are the watcher and its debouncing, the batching, retries and time-outs of the
  embedding adapter (a failure here is the terminal one), the check of dimensionality,
  the short-circuit of hashing on modification time and size, the generation
  orchestrator, and crashes in the middle of a commit.
\<close>

section \<open>Snapshot store (specification 4.2)\<close>

text \<open>Modelled from the spec: a relative path within a watched folder.\<close>

type_synonym path = string

text \<open>Modelled from the spec: the bytes of a file.\<close>

type_synonym bytes = string

text \<open>Modelled from the spec: the \<open>FixedHash\<close> that \<open>fingerprint(bytes)\<close> returns.\<close>

type_synonym fingerprint = string

text \<open>
  Modelled from the spec: the \<open>FileRecord\<close> of the data model, "relative path (unique
  within a folder), content fingerprint, last-synced timestamp". The relative path is
  the key under which the record is stored in the mapping.
\<close>

record FileRecord =
  fr_fingerprint :: fingerprint
  fr_lastSynced :: nat

text \<open>
  Modelled from the spec: the snapshot, "durable mapping of relative path to fingerprint
  per watched folder", as \<open>load(folderId) -> mapping<path, FileRecord>\<close> returns it. The
  mapping is an association list read with \<open>map_of\<close>.
\<close>

type_synonym snapshot = "(path \<times> FileRecord) list"

text \<open>Modelled from the spec: the paths of a mapping, each once.\<close>

definition pathsOf :: "snapshot \<Rightarrow> path list" where
  "pathsOf m = remdups (map fst m)"

text \<open>Modelled from the spec: the result \<open>{added, modified, removed}\<close> of \<open>diff\<close>.\<close>

record DiffResult =
  added :: "path list"
  modified :: "path list"
  removed :: "path list"

text \<open>
  Modelled from the spec: \<open>diff(old, new)\<close> of the snapshot store, "a path present only
  in new is added; present in both with differing fingerprint is modified; present only
  in old is removed".
\<close>

definition diff :: "snapshot \<Rightarrow> snapshot \<Rightarrow> DiffResult" where
  "diff old new =
     \<lparr> added = filter (\<lambda>p. map_of old p = None) (pathsOf new),
       modified =
         filter (\<lambda>p. case (map_of old p, map_of new p) of
                        (Some a, Some b) \<Rightarrow> fr_fingerprint a \<noteq> fr_fingerprint b
                      | _ \<Rightarrow> False)
           (pathsOf new),
       removed = filter (\<lambda>p. map_of new p = None) (pathsOf old) \<rparr>"

section \<open>Vector index (specification 4.6)\<close>

text \<open>
  Modelled from the spec: chunk identity, "source file id + ordinal"; the source file is
  named by its relative path.
\<close>

type_synonym chunkId = "path \<times> nat"

text \<open>
  Modelled from the spec: what the index keeps for a chunk, "text span, embedding vector,
  and a content hash used to detect unchanged chunks across re-chunking". Vectors are of
  an arbitrary type \<open>'v\<close>.
\<close>

record 'v ChunkEntry =
  ce_text :: string
  ce_vector :: 'v
  ce_contentHash :: string

text \<open>Modelled from the spec: the per-folder store of "(chunk id -> vector,
  metadata)", an association list read with \<open>map_of\<close>.\<close>

type_synonym 'v index = "(chunkId \<times> 'v ChunkEntry) list"


text \<open>Modelled from the spec: \<open>upsert(chunk id, vector, metadata)\<close> of the vector index.\<close>

definition upsert :: "chunkId \<Rightarrow> 'v ChunkEntry \<Rightarrow> 'v index \<Rightarrow> 'v index" where
  "upsert cid e idx = AList.update cid e idx"

text \<open>
  Modelled from the spec: \<open>deleteBySource(fileId)\<close>, which "must remove every chunk whose
  source is that file".
\<close>

definition deleteBySource :: "path \<Rightarrow> 'v index \<Rightarrow> 'v index" where
  "deleteBySource p idx = filter (\<lambda>(cid, e). fst cid \<noteq> p) idx"


section \<open>Folder state and retrieval (specification 4.7 and 4.8)\<close>

text \<open>Modelled from the spec: the states of the sync state machine of a folder.\<close>

datatype Phase = Idle | Scanning | Diffing | Applying | Degraded

text \<open>
  Modelled from the spec: what the engine holds for one watched folder: the committed
  snapshot, the vector index, the state of the sync state machine with the listing and
  the changes of the cycle in flight, the pending flag into which a trigger arriving
  mid-cycle is coalesced, and whether an initial sync has completed.
\<close>

record 'v FolderState =
  fs_snapshot :: snapshot
  fs_index :: "'v index"
  fs_phase :: Phase
  fs_listing :: "(path \<times> bytes) list"
  fs_changes :: DiffResult
  fs_pending :: bool
  fs_ready :: bool




text \<open>Modelled from the spec: the result of \<open>diff\<close> when nothing has changed.\<close>

definition noChanges :: DiffResult where
  "noChanges = \<lparr> added = [], modified = [], removed = [] \<rparr>"

text \<open>Modelled from the spec: the state of a folder that has never been synced: empty
  snapshot and index, \<open>Idle\<close>, not ready.\<close>

definition initialFolderState :: "'v FolderState" where
  "initialFolderState =
     \<lparr> fs_snapshot = [], fs_index = [], fs_phase = Idle, fs_listing = [],
       fs_changes = noChanges, fs_pending = False, fs_ready = False \<rparr>"

section \<open>Loader, chunker and embedding adapter (specification 4.1, 4.4, 4.5)\<close>

text \<open>Modelled from the spec: the failures of \<open>load(path)\<close>.\<close>

datatype LoadError = UnsupportedType | ReadError

text \<open>
  Modelled from the spec: the capabilities the sync engine calls, as functions:
  \<open>fingerprint(bytes)\<close> of the content hasher; \<open>load(path)\<close> of the document loader,
  given the path and the bytes found there; \<open>chunk(text, targetSize, overlap)\<close> with the
  configured size and overlap, "deterministic for identical input"; the content hash of
  a chunk; and \<open>embed\<close> on one text, \<open>None\<close> being the terminal failure of that item
  once its retries are exhausted.
\<close>

record 'v Capabilities =
  cap_fingerprint :: "bytes \<Rightarrow> fingerprint"
  cap_load :: "path \<Rightarrow> bytes \<Rightarrow> LoadError + string"
  cap_chunk :: "string \<Rightarrow> string list"
  cap_contentHash :: "string \<Rightarrow> string"
  cap_embed :: "string \<Rightarrow> 'v option"

section \<open>Sync engine (specification 4.7)\<close>

text \<open>
  Modelled from the spec: what a sync cycle reports: the texts sent to the embedding
  capability, the files left for the next sync because an embedding failed, and the
  files not loaded, with the reason.
\<close>

record SyncReport =
  rep_embedded :: "string list"
  rep_failed :: "path list"
  rep_skipped :: "(path \<times> LoadError) list"

text \<open>Modelled from the spec: the report of a cycle that did nothing.\<close>

definition emptyReport :: SyncReport where
  "emptyReport = \<lparr> rep_embedded = [], rep_failed = [], rep_skipped = [] \<rparr>"

text \<open>Modelled from the spec: the index and the snapshot being built while the
  changes are applied, and the report so far.\<close>

record 'v Work =
  w_index :: "'v index"
  w_snapshot :: snapshot
  w_report :: SyncReport

text \<open>Modelled from the spec: a chunk is unchanged when the index holds its id with
  the same content hash.\<close>

definition unchangedChunk :: "'v Capabilities \<Rightarrow> 'v index \<Rightarrow> chunkId \<Rightarrow> string \<Rightarrow> bool" where
  "unchangedChunk caps idx cid t =
     (case map_of idx cid of
        None \<Rightarrow> False
      | Some e \<Rightarrow> ce_contentHash e = cap_contentHash caps t)"

text \<open>
  Modelled from the spec: "embed only chunks new or whose content hash changed, upsert
  changed chunks", over the chunks of a file from ordinal \<open>i\<close> on. The result is the
  index, the texts sent to the embedding capability, and whether every one of them was
  embedded; a chunk whose embedding fails is left as it is in the index and the others
  go on ("one bad chunk does not abort the whole file").
\<close>

fun upsertChunks ::
  "'v Capabilities \<Rightarrow> path \<Rightarrow> nat \<Rightarrow> string list \<Rightarrow> 'v index \<Rightarrow>
   'v index \<times> string list \<times> bool" where
  "upsertChunks caps p i [] idx = (idx, [], True)"
| "upsertChunks caps p i (t # ts) idx =
     (if unchangedChunk caps idx (p, i) t then upsertChunks caps p (Suc i) ts idx
      else
        (case cap_embed caps t of
           None \<Rightarrow>
             (case upsertChunks caps p (Suc i) ts idx of
                (idx', sent, ok) \<Rightarrow> (idx', t # sent, False))
         | Some v \<Rightarrow>
             (case upsertChunks caps p (Suc i) ts
                     (upsert (p, i)
                        \<lparr> ce_text = t, ce_vector = v,
                          ce_contentHash = cap_contentHash caps t \<rparr> idx) of
                (idx', sent, ok) \<Rightarrow> (idx', t # sent, ok))))"

text \<open>
  Modelled from the spec: "delete removed chunks": the chunks of the file whose id is not
  among the new ids are pruned, "by diffing old chunk ids against new ones".
\<close>

definition pruneStale :: "path \<Rightarrow> chunkId list \<Rightarrow> 'v index \<Rightarrow> 'v index" where
  "pruneStale p newIds idx = filter (\<lambda>(cid, e). fst cid \<noteq> p \<or> cid \<in> set newIds) idx"

text \<open>
  Modelled from the spec: the work on one added or modified file: "load, chunk, diff
  chunk ids against the index's existing chunk ids for that file, embed only chunks new
  or whose content hash changed, upsert changed chunks, delete removed chunks". A file
  that cannot be loaded is skipped. The snapshot entry of the file is written when every
  embedding succeeded; otherwise "the prior snapshot entry for that file" is left
  "untouched so the file is retried on the next sync".
\<close>

definition applyFile ::
  "'v Capabilities \<Rightarrow> nat \<Rightarrow> (path \<times> bytes) list \<Rightarrow> path \<Rightarrow> 'v Work \<Rightarrow> 'v Work" where
  "applyFile caps now listing p w =
     (case map_of listing p of
        None \<Rightarrow> w
      | Some b \<Rightarrow>
          (case cap_load caps p b of
             Inl err \<Rightarrow>
               w\<lparr> w_report := (w_report w)
                     \<lparr> rep_skipped := rep_skipped (w_report w) @ [(p, err)] \<rparr> \<rparr>
           | Inr txt \<Rightarrow>
               (case upsertChunks caps p 0 (cap_chunk caps txt) (w_index w) of
                  (idx1, sent, ok) \<Rightarrow>
                    (let idx2 = pruneStale p
                                  (map (\<lambda>i. (p, i)) [0..<length (cap_chunk caps txt)]) idx1;
                         rep = (w_report w)
                                 \<lparr> rep_embedded := rep_embedded (w_report w) @ sent \<rparr>
                     in if ok
                        then w\<lparr> w_index := idx2,
                                w_snapshot :=
                                  AList.update p
                                    \<lparr> fr_fingerprint = cap_fingerprint caps b,
                                      fr_lastSynced = now \<rparr> (w_snapshot w),
                                w_report := rep \<rparr>
                        else w\<lparr> w_index := idx2,
                                w_report := rep\<lparr> rep_failed := rep_failed rep @ [p] \<rparr> \<rparr>))))"

text \<open>Modelled from the spec: the work on one removed file: "delete the file's chunks
  entirely", and its record.\<close>

definition applyRemoved :: "path \<Rightarrow> 'v Work \<Rightarrow> 'v Work" where
  "applyRemoved p w =
     w\<lparr> w_index := deleteBySource p (w_index w),
        w_snapshot := AList.delete p (w_snapshot w) \<rparr>"

text \<open>Modelled from the spec: the work "per changed file", over the added and
  modified files in turn.\<close>

fun applyFiles ::
  "'v Capabilities \<Rightarrow> nat \<Rightarrow> (path \<times> bytes) list \<Rightarrow> path list \<Rightarrow> 'v Work \<Rightarrow> 'v Work" where
  "applyFiles caps now listing [] w = w"
| "applyFiles caps now listing (p # ps) w =
     applyFiles caps now listing ps (applyFile caps now listing p w)"

text \<open>Modelled from the spec: the work on the removed files in turn.\<close>

fun applyRemovals :: "path list \<Rightarrow> 'v Work \<Rightarrow> 'v Work" where
  "applyRemovals [] w = w"
| "applyRemovals (p # ps) w = applyRemovals ps (applyRemoved p w)"

text \<open>
  Modelled from the spec: a trigger, "a watcher event or a scheduled/manual full
  rescan", moves \<open>Idle\<close> to \<open>Scanning\<close>; one "arriving mid-cycle is coalesced
  into a pending flag"; \<open>Degraded\<close> is left only by reconfiguration or deletion.
\<close>

definition trigger :: "'v FolderState \<Rightarrow> 'v FolderState" where
  "trigger st =
     (case fs_phase st of
        Idle \<Rightarrow> st\<lparr> fs_phase := Scanning \<rparr>
      | Degraded \<Rightarrow> st
      | _ \<Rightarrow> st\<lparr> fs_pending := True \<rparr>)"

text \<open>
  Modelled from the spec: \<open>Scanning\<close>, "listing the folder tree"; the listing is
  \<open>None\<close> when the root path is unavailable, which moves the folder to \<open>Degraded\<close>.
\<close>

definition scanStep :: "(path \<times> bytes) list option \<Rightarrow> 'v FolderState \<Rightarrow> 'v FolderState" where
  "scanStep listing st =
     (if fs_phase st = Scanning
      then (case listing of
              None \<Rightarrow> st\<lparr> fs_phase := Degraded \<rparr>
            | Some l \<Rightarrow> st\<lparr> fs_phase := Diffing, fs_listing := l \<rparr>)
      else st)"

text \<open>Modelled from the spec: "hashing files": the mapping of the listing, to be
  compared with the snapshot. Every listed file is hashed.\<close>

definition scanned :: "'v Capabilities \<Rightarrow> nat \<Rightarrow> (path \<times> bytes) list \<Rightarrow> snapshot" where
  "scanned caps now l =
     map (\<lambda>(p, b). (p, \<lparr> fr_fingerprint = cap_fingerprint caps b, fr_lastSynced = now \<rparr>)) l"

text \<open>Modelled from the spec: "\<open>Scanning -> Diffing\<close> computes the
  added/modified/removed set against the snapshot".\<close>

definition diffStep :: "'v Capabilities \<Rightarrow> nat \<Rightarrow> 'v FolderState \<Rightarrow> 'v FolderState" where
  "diffStep caps now st =
     (if fs_phase st = Diffing
      then st\<lparr> fs_phase := Applying,
               fs_changes := diff (fs_snapshot st) (scanned caps now (fs_listing st)) \<rparr>
      else st)"

text \<open>
  Modelled from the spec: \<open>Applying\<close> and the transition to \<open>Idle\<close>, which "commits the
  updated snapshot only after the corresponding index mutations": the changes are
  applied to a working copy, file by file, and the result is committed; the pending flag
  is "consumed at the next Idle transition" by starting the next cycle.
\<close>

definition applyStep ::
  "'v Capabilities \<Rightarrow> nat \<Rightarrow> 'v FolderState \<Rightarrow> 'v FolderState \<times> SyncReport" where
  "applyStep caps now st =
     (if fs_phase st = Applying
      then
        (let d = fs_changes st;
             w0 = \<lparr> w_index = fs_index st, w_snapshot = fs_snapshot st,
                    w_report = emptyReport \<rparr>;
             w1 = applyFiles caps now (fs_listing st) (added d @ modified d) w0;
             w2 = applyRemovals (removed d) w1
         in (st\<lparr> fs_index := w_index w2, fs_snapshot := w_snapshot w2,
                 fs_phase := (if fs_pending st then Scanning else Idle),
                 fs_listing := [], fs_changes := noChanges,
                 fs_pending := False, fs_ready := True \<rparr>,
             w_report w2))
      else (st, emptyReport))"

text \<open>Modelled from the spec: the two modes of \<open>sync(folderId, mode)\<close>.\<close>

datatype SyncMode = Incremental | Full

text \<open>
  Modelled from the spec: \<open>sync(folderId, mode)\<close> on the state of the folder, with the
  clock and the listing of the folder tree as arguments. On an idle folder it runs one
  cycle, \<open>Idle -> Scanning -> Diffing -> Applying -> Idle\<close>; otherwise it is a
  trigger. The specification describes one cycle for both modes.
\<close>

definition sync ::
  "'v Capabilities \<Rightarrow> SyncMode \<Rightarrow> nat \<Rightarrow> (path \<times> bytes) list option \<Rightarrow> 'v FolderState \<Rightarrow>
   'v FolderState \<times> SyncReport" where
  "sync caps mode now listing st =
     (case fs_phase st of
        Idle \<Rightarrow> applyStep caps now (diffStep caps now (scanStep listing (trigger st)))
      | _ \<Rightarrow> (trigger st, emptyReport))"

section \<open>Destroying a watched folder (specification 3, 4.6 and 5)\<close>







section \<open>Notions used in the statements and proofs about the engine\<close>







text \<open>Every listed file that can be loaded yields at least one chunk.\<close>

definition chunked :: "'v Capabilities \<Rightarrow> (path \<times> bytes) list \<Rightarrow> bool" where
  "chunked caps l =
     list_all (\<lambda>(p, b). case cap_load caps p b of
                           Inl err \<Rightarrow> True
                         | Inr tx \<Rightarrow> cap_chunk caps tx \<noteq> []) l"


section \<open>Example capabilities, listings and states\<close>



text \<open>
  Capabilities for the examples: the content is its own fingerprint and hash, a file is a
  single chunk, the file \<open>bin\<close> is of an unsupported type, and the text \<open>bad\<close> cannot be
  embedded; a vector is the length of the text.
\<close>

definition exampleCaps :: "nat Capabilities" where
  "exampleCaps =
     \<lparr> cap_fingerprint = (\<lambda>b. b),
       cap_load = (\<lambda>p b. if b = ''bin'' then Inl UnsupportedType else Inr b),
       cap_chunk = (\<lambda>t. [t]),
       cap_contentHash = (\<lambda>t. t),
       cap_embed = (\<lambda>t. if t = ''bad'' then None else Some (length t)) \<rparr>"




text \<open>A listing with one file whose only chunk cannot be embedded, and the state and
  the report of a first sync of it.\<close>

definition failingListing :: "(path \<times> bytes) list" where
  "failingListing = [(''d.txt'', ''bad'')]"

definition afterFailedSync :: "nat FolderState" where
  "afterFailedSync = initialFolderState\<lparr> fs_ready := True \<rparr>"

definition failedReport :: SyncReport where
  "failedReport = \<lparr> rep_embedded = [''bad''], rep_failed = [''d.txt''], rep_skipped = [] \<rparr>"










chapter \<open>Properties\<close>

section \<open>The guard of \<open>handleSendMessage\<close>\<close>

text \<open>
  C9. In every state of the chat page in which no LLM provider is selected, or no watched
  folder is selected, or the input is empty once trimmed, \<open>handleSendMessage\<close> issues no
  HTTP request and leaves the displayed message list as it was, whatever the environment,
  the clock and the server would have answered.
\<close>

theorem handleSendMessage_guard:
  assumes "currentLLMProviderId st = None \<or> currentWatchedFolderId st = None \<or>
           trim (input st) = []"
  shows "filter isHttpRequest (snd (handleSendMessage env nowIso outcome st)) = [] \<and>
         messages (fst (handleSendMessage env nowIso outcome st)) = messages st"
  using assms by (auto simp: handleSendMessage_def falsyNumber_def)

theorem handleSendMessage_guard_witness:
  "(currentLLMProviderId
      \<lparr> input = ''hello'', messages = [], activeChatId = None, isBotTyping = False,
        currentLLMProviderId = Some 1, currentWatchedFolderId = None \<rparr> = None \<or>
    currentWatchedFolderId
      \<lparr> input = ''hello'', messages = [], activeChatId = None, isBotTyping = False,
        currentLLMProviderId = Some 1, currentWatchedFolderId = None \<rparr> = None \<or>
    trim (input
      \<lparr> input = ''hello'', messages = [], activeChatId = None, isBotTyping = False,
        currentLLMProviderId = Some 1, currentWatchedFolderId = None \<rparr>) = []) \<and>
   filter isHttpRequest (snd (handleSendMessage None ''t'' (Threw None)
      \<lparr> input = ''hello'', messages = [], activeChatId = None, isBotTyping = False,
        currentLLMProviderId = Some 1, currentWatchedFolderId = None \<rparr>)) = [] \<and>
   messages (fst (handleSendMessage None ''t'' (Threw None)
      \<lparr> input = ''hello'', messages = [], activeChatId = None, isBotTyping = False,
        currentLLMProviderId = Some 1, currentWatchedFolderId = None \<rparr>)) = []"
  using handleSendMessage_guard
    [of "\<lparr> input = ''hello'', messages = [], activeChatId = None, isBotTyping = False,
           currentLLMProviderId = Some 1, currentWatchedFolderId = None \<rparr>"
        None "''t''" "Threw None"]
  by simp

section \<open>Strings: path segments and the round trip of decimal numerals\<close>

lemma splitOn_nonempty: "splitOn sep s \<noteq> []"
  by (induction s) (auto split: list.splits)

lemma length_splitOn: "length (splitOn sep s) = Suc (length (filter sep s))"
  by (induction s) (auto split: list.splits)

lemma last_splitOn: "last (splitOn sep s) = rev (takeWhile (\<lambda>c. \<not> sep c) (rev s))"
proof (induction s)
  case Nil
  then show ?case by simp
next
  case (Cons c cs)
  show ?case
  proof (cases "sep c")
    case True
    then show ?thesis using Cons splitOn_nonempty[of sep cs]
      by (auto simp: takeWhile_append)
  next
    case False
    obtain w ws where sp: "splitOn sep cs = w # ws"
      using splitOn_nonempty[of sep cs] by (cases "splitOn sep cs") auto
    show ?thesis
    proof (cases "ws = []")
      case True
      then have "filter sep cs = []" using length_splitOn[of sep cs] sp by simp
      then have all: "\<forall>x\<in>set cs. \<not> sep x" by (simp add: filter_empty_conv)
      have tw: "takeWhile (\<lambda>c. \<not> sep c) (rev cs) = rev cs"
        using all by (simp add: takeWhile_eq_all_conv)
      have w: "w = cs" using Cons sp True tw by simp
      have e: "takeWhile (\<lambda>c. \<not> sep c) (rev cs @ [c]) = rev cs @ [c]"
        using all False by (simp add: takeWhile_eq_all_conv)
      show ?thesis using False sp True w by (simp add: e)
    next
      case nonempty: False
      then have "filter sep cs \<noteq> []" using length_splitOn[of sep cs] sp by auto
      then obtain x where x: "x \<in> set cs" "sep x" by (auto simp: filter_empty_conv)
      have e: "takeWhile (\<lambda>c. \<not> sep c) (rev cs @ [c]) = takeWhile (\<lambda>c. \<not> sep c) (rev cs)"
        using x by (auto simp: takeWhile_append)
      show ?thesis using False sp nonempty Cons by (simp add: e)
    qed
  qed
qed

lemma pop_splitOn: "pop (splitOn sep s) = Some (rev (takeWhile (\<lambda>c. \<not> sep c) (rev s)))"
proof -
  have "pop xs = Some (last xs)" if "xs \<noteq> []" for xs :: "string list"
    using that by (cases xs rule: rev_cases) (auto simp: pop_def)
  then show ?thesis using splitOn_nonempty last_splitOn by metis
qed


lemma digit_cases: "d < 10 \<Longrightarrow> d = 0 \<or> d = 1 \<or> d = 2 \<or> d = 3 \<or> d = 4 \<or> d = 5 \<or> d = 6 \<or> d = 7 \<or> d = 8 \<or> d = (9::nat)"
  by arith

lemma digitValue_digitChar: "d < 10 \<Longrightarrow> digitValue (digitChar d) = Some d"
  using digit_cases[of d] by (auto simp: digitValue_def digitChar_def)

lemma digitChar_not_space: "\<not> isWhiteSpace (digitChar d)"
  by (simp add: digitChar_def isWhiteSpace_def)

lemma digitChar_not_sign: "digitChar d \<noteq> CHR ''-'' \<and> digitChar d \<noteq> CHR ''+'' \<and> digitChar d \<noteq> CHR ''x'' \<and> digitChar d \<noteq> CHR ''X''"
  by (simp add: digitChar_def)

lemma isDigitOf_digitChar: "isDigitOf 10 (digitChar d)"
proof -
  have "digitChar d = digitChar (min d 9)" by (simp add: digitChar_def min_def)
  moreover have "digitValue (digitChar (min d 9)) = Some (min d 9)"
    by (rule digitValue_digitChar) simp
  ultimately show ?thesis by (simp add: isDigitOf_def)
qed

lemma showNat_digits: "c \<in> set (showNat n) \<Longrightarrow> \<exists>d. c = digitChar d"
proof (induction n rule: showNat.induct)
  case (1 n)
  then show ?case
    by (subst (asm) showNat.simps) (auto split: if_splits)
qed

lemma showNat_nonempty: "showNat n \<noteq> []"
  by (subst showNat.simps) simp

lemma digitsValue_snoc:
  "digitsValue r (ds @ [c]) = digitsValue r ds * r + (case digitValue c of None \<Rightarrow> 0 | Some v \<Rightarrow> v)"
  by (simp add: digitsValue_def)

lemma digitsValue_showNat: "digitsValue 10 (showNat n) = n"
proof (induction n rule: showNat.induct)
  case (1 n)
  show ?case
  proof (cases "n < 10")
    case True
    then show ?thesis
      by (subst showNat.simps) (simp add: digitsValue_def digitValue_digitChar)
  next
    case False
    then have "digitsValue 10 (showNat (n div 10)) = n div 10" using 1 by simp
    then show ?thesis using False
      by (subst showNat.simps) (simp add: digitsValue_snoc digitValue_digitChar)
  qed
qed

lemma parseInt_digits:
  assumes "ds \<noteq> []" and "\<forall>c\<in>set ds. \<exists>d. c = digitChar d"
  shows "parseInt ds = Some (int (digitsValue 10 ds))"
    and "parseInt (CHR ''-'' # ds) = Some (- int (digitsValue 10 ds))"
proof -
  obtain c r where ds: "ds = c # r" using assms(1) by (cases ds) auto
  have c: "\<not> isWhiteSpace c" "c \<noteq> CHR ''-''" "c \<noteq> CHR ''+''"
    using assms(2) ds digitChar_not_space digitChar_not_sign by auto
  have nox: "CHR ''x'' \<noteq> digitChar d" "CHR ''X'' \<noteq> digitChar d" for d
    by (simp_all add: digitChar_def)
  have nohex: "(case ds of c # d # _ \<Rightarrow> c = CHR ''0'' \<and> (d = CHR ''x'' \<or> d = CHR ''X'') | _ \<Rightarrow> False) = False"
    using assms(2) nox by (auto split: list.splits)
  have tw: "takeWhile (isDigitOf 10) ds = ds"
    using assms(2) isDigitOf_digitChar by (auto simp: takeWhile_eq_all_conv)
  have dw: "dropWhile isWhiteSpace ds = ds" using c ds by simp
  have neg: "(case ds of [] \<Rightarrow> False | c # _ \<Rightarrow> c = CHR ''-'') = False"
    using c ds by simp
  have u: "(case ds of [] \<Rightarrow> [] | c # r \<Rightarrow> if c = CHR ''-'' \<or> c = CHR ''+'' then r else ds) = ds"
    using c ds by simp
  show "parseInt ds = Some (int (digitsValue 10 ds))"
    unfolding parseInt_def Let_def dw neg u nohex
    by (simp add: tw assms(1))
  have ms: "\<not> isWhiteSpace (CHR ''-'')" by (simp add: isWhiteSpace_def)
  show "parseInt (CHR ''-'' # ds) = Some (- int (digitsValue 10 ds))"
    unfolding parseInt_def Let_def
    by (simp add: ms tw nohex assms(1))
qed

lemma parseInt_showInt: "parseInt (showInt n) = Some n"
proof (cases "n < 0")
  case True
  then show ?thesis
    using parseInt_digits(2)[OF showNat_nonempty, of "nat (- n)"] showNat_digits
    by (auto simp: showInt_def digitsValue_showNat)
next
  case False
  then show ?thesis
    using parseInt_digits(1)[OF showNat_nonempty, of "nat n"] showNat_digits
    by (auto simp: showInt_def digitsValue_showNat)
qed

lemma showInt_nonempty: "showInt n \<noteq> []"
  by (simp add: showInt_def showNat_nonempty)


section \<open>The form of watched folders\<close>

lemma handleSubmit_create_payload:
  assumes "snd (handleSubmit None now outcome st) = Some (CreatePayload p, i)"
  shows "p = \<lparr> create_name = trim (form_name st),
               create_path = trim (form_path st),
               create_llmProviderId =
                 parseInt (case selectedLlmProviderId st of None \<Rightarrow> [] | Some s \<Rightarrow> s),
               create_vectorDbFilename =
                 (if trim (form_vectorDbFilename st) \<noteq> [] then trim (form_vectorDbFilename st)
                  else generatedVectorDbFilename (form_path st) now),
               create_vectorDbLocation = trim (form_vectorDbLocation st) \<rparr>
         \<and> \<not> falsyString (selectedLlmProviderId st) \<and> i = None"
  using assms by (auto simp: handleSubmit_def Let_def split: if_splits)

lemma exampleForm_blank: "trim (form_vectorDbFilename exampleForm) = []"
  by (simp add: exampleForm_def trim_def isWhiteSpace_def)

lemma example_toLowerCase: "toLowerCase ''My  Docs'' = ''my  docs''"
  by code_simp

lemma example_parseInt: "parseInt ''3'' = Some 3"
  by code_simp

lemma example_showNat: "showNat 1747312345678 = ''1747312345678''"
  by (simp add: showNat.simps digitChar_def)

lemma exampleForm_submits: "snd (handleSubmit None 1747312345678 Resolved exampleForm) = Some (CreatePayload examplePayload, None)"
  by (simp add: handleSubmit_def exampleForm_def examplePayload_def trim_def isWhiteSpace_def
      falsyString_def generatedVectorDbFilename_def pop_def orElse_def isPathSeparator_def
      example_toLowerCase example_parseInt example_showNat)



text \<open>
  C10. When a folder is created with the Vector DB Filename field blank, the
  \<open>vectorDbFilename\<close> of the submitted payload is not empty: it is the last segment of the
  folder path (\<open>default_folder\<close> when that segment is empty), lowercased, each run of
  white space replaced by one underscore, followed by an underscore, the time stamp in
  decimal and \<open>_vectors\<close>.
\<close>

theorem handleSubmit_generated_filename:
  assumes "trim (form_vectorDbFilename st) = []"
      and "snd (handleSubmit None now outcome st) = Some (CreatePayload p, i)"
  shows "create_vectorDbFilename p \<noteq> [] \<and>
         create_vectorDbFilename p =
           replaceWhitespaceRuns
             (toLowerCase (if lastSegment (form_path st) = [] then ''default_folder''
                           else lastSegment (form_path st)))
           @ ''_'' @ showNat now @ ''_vectors''"
  using handleSubmit_create_payload[OF assms(2)] assms(1)
  by (simp add: generatedVectorDbFilename_def pop_splitOn orElse_def lastSegment_def)



theorem handleSubmit_generated_filename_witness:
  "trim (form_vectorDbFilename exampleForm) = [] \<and>
   snd (handleSubmit None 1747312345678 Resolved exampleForm)
     = Some (CreatePayload examplePayload, None) \<and>
   create_vectorDbFilename examplePayload \<noteq> [] \<and>
   create_vectorDbFilename examplePayload =
     replaceWhitespaceRuns
       (toLowerCase (if lastSegment (form_path exampleForm) = [] then ''default_folder''
                     else lastSegment (form_path exampleForm)))
     @ ''_'' @ showNat 1747312345678 @ ''_vectors''"
  using handleSubmit_generated_filename
    [OF exampleForm_blank exampleForm_submits] exampleForm_blank exampleForm_submits
  by simp

text \<open>
  C8, as the code has it. The column \<open>llmProviderId\<close> of \<open>WatchedFolder\<close> is optional, so
  a row without a provider is a row of the schema, and the list of folders shows it as
  \<open>N/A\<close>.
\<close>

theorem watchedFolder_unbound_counterexample:
  "wf_llmProviderId unboundFolder = None \<and>
   getLlmProviderName [] (wf_llmProviderId unboundFolder) = ''N/A''"
  by (simp add: unboundFolder_def getLlmProviderName_def)

text \<open>
  C8, amended. The form never submits while no provider is selected: it sets an error
  instead, in create and in edit mode. A payload submitted in create mode carries
  \<open>parseInt\<close> of the selected value, which is the provider id itself when the value is
  the decimal string of an id, as the options of the select are.
\<close>

theorem handleSubmit_requires_provider:
  "(falsyString (selectedLlmProviderId st) \<longrightarrow>
      snd (handleSubmit initialData now outcome st) = None \<and>
      form_error (fst (handleSubmit initialData now outcome st)) \<noteq> []) \<and>
   (\<forall>p i. snd (handleSubmit None now outcome st) = Some (CreatePayload p, i) \<longrightarrow>
      (\<exists>s. selectedLlmProviderId st = Some s \<and> s \<noteq> [] \<and>
           create_llmProviderId p = parseInt s \<and>
           (\<forall>n. s = showInt n \<longrightarrow> create_llmProviderId p = Some n)))"
proof (intro conjI impI allI)
  assume "falsyString (selectedLlmProviderId st)"
  then show "snd (handleSubmit initialData now outcome st) = None"
    by (simp add: handleSubmit_def Let_def)
next
  assume "falsyString (selectedLlmProviderId st)"
  then show "form_error (fst (handleSubmit initialData now outcome st)) \<noteq> []"
    by (simp add: handleSubmit_def Let_def)
next
  fix p i
  assume sub: "snd (handleSubmit None now outcome st) = Some (CreatePayload p, i)"
  from handleSubmit_create_payload[OF sub]
  have p: "create_llmProviderId p =
             parseInt (case selectedLlmProviderId st of None \<Rightarrow> [] | Some s \<Rightarrow> s)"
    and sel: "\<not> falsyString (selectedLlmProviderId st)"
    by simp_all
  from sel obtain s where s: "selectedLlmProviderId st = Some s" "s \<noteq> []"
    by (auto simp: falsyString_def split: option.splits)
  have "create_llmProviderId p = parseInt s" using p s by simp
  then show "\<exists>s. selectedLlmProviderId st = Some s \<and> s \<noteq> [] \<and>
           create_llmProviderId p = parseInt s \<and>
           (\<forall>n. s = showInt n \<longrightarrow> create_llmProviderId p = Some n)"
    using s parseInt_showInt by auto
qed

lemma example_showInt: "showInt 3 = ''3''"
  by (simp add: showInt_def showNat.simps digitChar_def)

theorem handleSubmit_requires_provider_witness:
  "falsyString (selectedLlmProviderId exampleFormNoProvider) \<and>
   snd (handleSubmit None 1747312345678 Resolved exampleFormNoProvider) = None \<and>
   form_error (fst (handleSubmit None 1747312345678 Resolved exampleFormNoProvider)) \<noteq> [] \<and>
   snd (handleSubmit None 1747312345678 Resolved exampleForm)
     = Some (CreatePayload examplePayload, None) \<and>
   selectedLlmProviderId exampleForm = Some (showInt 3) \<and>
   create_llmProviderId examplePayload = Some 3"
proof -
  have none: "falsyString (selectedLlmProviderId exampleFormNoProvider)"
    by (simp add: exampleFormNoProvider_def falsyString_def)
  have sel: "selectedLlmProviderId exampleForm = Some (showInt 3)"
    by (simp add: exampleForm_def example_showInt)
  show ?thesis
    using handleSubmit_requires_provider
            [of exampleFormNoProvider None 1747312345678 Resolved]
          handleSubmit_requires_provider [of exampleForm None 1747312345678 Resolved]
          none sel exampleForm_submits
    by auto
qed

section \<open>The unique index on \<open>File\<close>\<close>

lemma file_id_applyFileUpdate [simp]: "file_id (applyFileUpdate now u f) = file_id f"
  by (simp add: applyFileUpdate_def)

lemma find_file_id:
  "find (\<lambda>f. file_id f = fid) fs = Some f \<Longrightarrow> f \<in> set fs \<and> file_id f = fid"
  by (induction fs) (auto split: if_splits)

lemma distinct_ids_same:
  "distinct (map file_id fs) \<Longrightarrow> f \<in> set fs \<Longrightarrow> g \<in> set fs \<Longrightarrow> file_id f = file_id g \<Longrightarrow> f = g"
  by (induction fs) (auto simp: image_iff)

lemma distinct_keys_update:
  assumes "distinct (map file_id fs)" and "distinct (map fileKey fs)"
      and "\<forall>g\<in>set fs. file_id g = fid \<longrightarrow>
             fileKey (h g) \<notin> set (map fileKey (filter (\<lambda>g. file_id g \<noteq> fid) fs))"
  shows "distinct (map fileKey (map (\<lambda>g. if file_id g = fid then h g else g) fs))"
  using assms
proof (induction fs)
  case Nil
  then show ?case by simp
next
  case (Cons a fs)
  show ?case
  proof (cases "file_id a = fid")
    case True
    then have no: "\<forall>g\<in>set fs. file_id g \<noteq> fid" using Cons.prems(1) by (auto simp: image_iff)
    then have same: "map (\<lambda>g. if file_id g = fid then h g else g) fs = fs"
      by (induction fs) auto
    have filt: "filter (\<lambda>g. file_id g \<noteq> fid) fs = fs" using no by (induction fs) auto
    have "fileKey (h a) \<notin> set (map fileKey fs)"
      using Cons.prems(3) True filt by simp
    then show ?thesis using True same Cons.prems(2) by simp
  next
    case False
    have ih: "distinct (map fileKey (map (\<lambda>g. if file_id g = fid then h g else g) fs))"
    proof (rule Cons.IH)
      show "distinct (map file_id fs)" using Cons.prems(1) by simp
      show "distinct (map fileKey fs)" using Cons.prems(2) by simp
      show "\<forall>g\<in>set fs. file_id g = fid \<longrightarrow>
             fileKey (h g) \<notin> set (map fileKey (filter (\<lambda>g. file_id g \<noteq> fid) fs))"
        using Cons.prems(3) False by auto
    qed
    have "fileKey a \<notin> set (map fileKey (map (\<lambda>g. if file_id g = fid then h g else g) fs))"
    proof
      assume "fileKey a \<in> set (map fileKey (map (\<lambda>g. if file_id g = fid then h g else g) fs))"
      then obtain g where g: "g \<in> set fs"
        "fileKey a = fileKey (if file_id g = fid then h g else g)" by auto
      show False
      proof (cases "file_id g = fid")
        case True
        then have "fileKey (h g) \<notin> set (map fileKey (filter (\<lambda>g. file_id g \<noteq> fid) (a # fs)))"
          using Cons.prems(3) g(1) by auto
        then show False using g(2) True False by auto
      next
        case nf: False
        then show False using g Cons.prems(2) by auto
      qed
    qed
    then show ?thesis using False ih by simp
  qed
qed

lemma filesInvariant_empty: "filesInvariant emptyDatabase"
  by (simp add: filesInvariant_def emptyDatabase_def)

lemma filesInvariant_createFile:
  "filesInvariant db \<Longrightarrow> createFile now d db = Inr db' \<Longrightarrow> filesInvariant db'"
  by (fastforce simp: filesInvariant_def createFile_def fileKey_def split: if_splits)

lemma filesInvariant_updateFile:
  assumes "filesInvariant db" and "updateFile now fid u db = Inr db'"
  shows "filesInvariant db'"
proof -
  obtain f where f: "find (\<lambda>f. file_id f = fid) (db_files db) = Some f"
    using assms(2) by (auto simp: updateFile_def split: option.splits)
  have fin: "f \<in> set (db_files db)" "file_id f = fid" using find_file_id[OF f] by auto
  have chk: "fileKey (applyFileUpdate now u f)
                \<notin> set (map fileKey (filter (\<lambda>g. file_id g \<noteq> fid) (db_files db)))"
    and db': "db' = db\<lparr> db_files :=
                       map (\<lambda>g. if file_id g = fid then applyFileUpdate now u g else g)
                         (db_files db) \<rparr>"
    using assms(2) f by (auto simp: updateFile_def split: if_splits)
  have ids: "distinct (map file_id (db_files db))" and keys: "distinct (map fileKey (db_files db))"
    and bound: "\<forall>f\<in>set (db_files db). file_id f < db_nextFileId db"
    using assms(1) by (auto simp: filesInvariant_def)
  have only: "\<forall>g\<in>set (db_files db). file_id g = fid \<longrightarrow> g = f"
    using distinct_ids_same[OF ids _ fin(1)] fin(2) by auto
  have k: "distinct (map fileKey (db_files db'))"
    unfolding db' using distinct_keys_update[OF ids keys, of fid "applyFileUpdate now u"] chk only
    by auto
  have idmap: "map file_id (db_files db') = map file_id (db_files db)"
    unfolding db' by (auto simp: comp_def)
  have b: "\<forall>f\<in>set (db_files db'). file_id f < db_nextFileId db'"
    using bound unfolding db' by auto
  show ?thesis using k idmap ids b by (simp add: filesInvariant_def)
qed

lemma filesInvariant_deleteFile:
  "filesInvariant db \<Longrightarrow> deleteFile fid db = Inr db' \<Longrightarrow> filesInvariant db'"
  by (auto simp: filesInvariant_def deleteFile_def distinct_map_filter split: option.splits)

lemma filesInvariant_deleteWatchedFolder:
  "filesInvariant db \<Longrightarrow> deleteWatchedFolder wid db = Inr db' \<Longrightarrow> filesInvariant db'"
  by (auto simp: filesInvariant_def deleteWatchedFolder_def distinct_map_filter split: option.splits)

lemma filesInvariant_applyFileOp:
  "filesInvariant db \<Longrightarrow> applyFileOp op db = Inr db' \<Longrightarrow> filesInvariant db'"
  by (cases op) (auto intro: filesInvariant_createFile filesInvariant_updateFile
      filesInvariant_deleteFile filesInvariant_deleteWatchedFolder)

lemma filesInvariant_applyFileOps:
  "filesInvariant db \<Longrightarrow> filesInvariant (applyFileOps ops db)"
proof (induction ops arbitrary: db)
  case Nil
  then show ?case by simp
next
  case (Cons op ops)
  then show ?case
    by (cases "applyFileOp op db") (auto dest: filesInvariant_applyFileOp)
qed


lemma uniqueRelativePaths_pairs:
  "uniqueRelativePaths db \<longleftrightarrow>
     (\<forall>i j. i < j \<and> j < length (db_files db) \<longrightarrow>
        \<not> (file_watchedFolderId (db_files db ! i) = file_watchedFolderId (db_files db ! j) \<and>
           file_relativePath (db_files db ! i) = file_relativePath (db_files db ! j)))"
proof -
  have "uniqueRelativePaths db \<longleftrightarrow>
          (\<forall>i j. i < j \<and> j < length (db_files db) \<longrightarrow>
             fileKey (db_files db ! i) \<noteq> fileKey (db_files db ! j))"
    unfolding uniqueRelativePaths_def distinct_conv_nth
    by (auto simp: nat_neq_iff) metis
  then show ?thesis by (simp add: fileKey_def)
qed

text \<open>
  C7. Within a watched folder the relative path of a \<open>File\<close> row is unique: whatever
  creations, updates and deletions are attempted on the empty database, accepted or
  rejected by the unique index, no two rows of the result have the same
  \<open>watchedFolderId\<close> and the same \<open>relativePath\<close>.
\<close>

theorem relativePath_unique_within_folder:
  "uniqueRelativePaths (applyFileOps ops emptyDatabase)"
  using filesInvariant_applyFileOps[OF filesInvariant_empty, of ops]
  by (simp add: filesInvariant_def uniqueRelativePaths_def)

chapter \<open>Properties of the engine as specified\<close>

section \<open>The diff of two snapshots\<close>

lemma set_pathsOf: "set (pathsOf m) = dom (map_of m)"
  by (simp add: pathsOf_def dom_map_of_conv_image_fst)


text \<open>
  C3. \<open>diff\<close> is a function of its two mappings and classifies each path by them alone:
  a path is added exactly when only \<open>new\<close> binds it, modified exactly when both bind it
  with different fingerprints, removed exactly when only \<open>old\<close> binds it. A path bound in
  both with the same fingerprint, or in neither, is in none of the three.
\<close>

theorem diff_classification:
  "(p \<in> set (added (diff old new)) \<longleftrightarrow> map_of new p \<noteq> None \<and> map_of old p = None) \<and>
   (p \<in> set (modified (diff old new)) \<longleftrightarrow>
      (\<exists>a b. map_of old p = Some a \<and> map_of new p = Some b \<and>
             fr_fingerprint a \<noteq> fr_fingerprint b)) \<and>
   (p \<in> set (removed (diff old new)) \<longleftrightarrow> map_of old p \<noteq> None \<and> map_of new p = None)"
  by (auto simp: diff_def set_pathsOf split: option.splits)


text \<open>The three sets depend on the mappings only, not on the lists that represent
  them.\<close>

lemma diff_depends_on_mappings:
  assumes "map_of old = map_of old'" and "map_of new = map_of new'"
  shows "set (added (diff old new)) = set (added (diff old' new')) \<and>
         set (modified (diff old new)) = set (modified (diff old' new')) \<and>
         set (removed (diff old new)) = set (removed (diff old' new'))"
  using assms by (auto simp: diff_def set_pathsOf split: option.splits)


section \<open>Retrieval\<close>



chapter \<open>Properties of the sync engine as specified\<close>

section \<open>One file at a time\<close>

lemma upsertChunks_index_Cons:
  "fst (upsertChunks caps p i (t # ts) idx) =
     (if unchangedChunk caps idx (p, i) t then fst (upsertChunks caps p (Suc i) ts idx)
      else (case cap_embed caps t of
              None \<Rightarrow> fst (upsertChunks caps p (Suc i) ts idx)
            | Some v \<Rightarrow> fst (upsertChunks caps p (Suc i) ts
                (upsert (p, i) \<lparr> ce_text = t, ce_vector = v,
                          ce_contentHash = cap_contentHash caps t \<rparr> idx))))"
  by (simp split: option.splits prod.splits)

lemma upsertChunks_sent_Cons:
  "fst (snd (upsertChunks caps p i (t # ts) idx)) =
     (if unchangedChunk caps idx (p, i) t then fst (snd (upsertChunks caps p (Suc i) ts idx))
      else (case cap_embed caps t of
              None \<Rightarrow> t # fst (snd (upsertChunks caps p (Suc i) ts idx))
            | Some v \<Rightarrow> t # fst (snd (upsertChunks caps p (Suc i) ts
                (upsert (p, i) \<lparr> ce_text = t, ce_vector = v,
                          ce_contentHash = cap_contentHash caps t \<rparr> idx)))))"
  by (simp split: option.splits prod.splits)

lemma upsertChunks_ok_Cons:
  "snd (snd (upsertChunks caps p i (t # ts) idx)) =
     (if unchangedChunk caps idx (p, i) t then snd (snd (upsertChunks caps p (Suc i) ts idx))
      else (case cap_embed caps t of
              None \<Rightarrow> False
            | Some v \<Rightarrow> snd (snd (upsertChunks caps p (Suc i) ts
                (upsert (p, i) \<lparr> ce_text = t, ce_vector = v,
                          ce_contentHash = cap_contentHash caps t \<rparr> idx)))))"
  by (simp split: option.splits prod.splits)

lemmas upsertChunks_Cons = upsertChunks_index_Cons upsertChunks_sent_Cons upsertChunks_ok_Cons






















lemma applyRemovals_Nil_snapshot: "w_snapshot (applyRemovals [] w) = w_snapshot w"
  by simp














section \<open>Examples of sync cycles\<close>

lemmas sync_eval =
  sync_def trigger_def scanStep_def diffStep_def applyStep_def diff_def pathsOf_def scanned_def
  applyFile_def upsert_def pruneStale_def unchangedChunk_def applyRemoved_def deleteBySource_def
  exampleCaps_def initialFolderState_def noChanges_def emptyReport_def Let_def


lemma example_failed_sync:
  "sync exampleCaps Full 1 (Some failingListing) initialFolderState = (afterFailedSync, failedReport)"
  by (simp add: sync_eval afterFailedSync_def failedReport_def failingListing_def)


section \<open>Syncing again\<close>








section \<open>A file that the index does not hold yet\<close>
























section \<open>Deleting and recreating a file\<close>





section \<open>Snapshot and index without orphans\<close>







lemma chunked_iff:
  "distinct (map fst l) \<Longrightarrow> chunked caps l \<longleftrightarrow>
   (\<forall>p b tx. map_of l p = Some b \<longrightarrow> cap_load caps p b = Inr tx \<longrightarrow> cap_chunk caps tx \<noteq> [])"
  by (auto simp: chunked_def list_all_iff split: sum.splits dest: map_of_SomeD)









section \<open>Destroying a watched folder\<close>

lemma find_None_filter: "find P xs = None \<longleftrightarrow> filter P xs = []"
  by (induction xs) auto







end
